theory Spec2Isabelle
  imports Complex_Main
begin

section \<open>ZenClock: the mode and timing state machine of index.tsx\<close>

text \<open>
  The module keeps its state in module-level variables and changes it in four callbacks:
  the periodic \<open>updateDisplay\<close>, \<open>switchMode\<close>, and the click handlers of the start/pause
  and reset buttons. Each callback becomes a function from the state before to the state
  after. Two things the callbacks read from outside are parameters: the system clock
  (\<open>Date.now()\<close> and the local wall-clock fields of \<open>new Date()\<close>) and the results of
  \<open>parseInt\<close> on the three input fields.

  Numbers are modelled as mathematical integers and reals: JavaScript's doubles agree with
  them on the millisecond timestamps and second counts that occur here (far below
  \<open>2^53\<close>, and printed in plain decimal notation). The page is assumed to hold every
  element the module looks up, so the guards on missing elements never fire. Class-list
  changes, the fullscreen toggle and the auto-hiding of the controls do not touch the
  timing state and are left out.
\<close>

subsection \<open>Data\<close>

datatype AppMode = CLOCK | STOPWATCH | TIMER

record state =
  currentMode :: AppMode
  swRunning :: bool
  swStartTime :: int
  swElapsedTime :: int
  timerRunning :: bool
  timerEndTime :: int
  timerRemaining :: int
  timerInitialSet :: int
  timeDisplayText :: string
  modeIndicatorText :: string
  btnStartText :: string
  alerts :: nat

text \<open>
  \<open>alerts\<close> counts the calls of \<open>handleTimerComplete\<close>, whose visible effect (a red flash
  that a timeout reverts) is the completion signal.
\<close>

record clockRead =
  dateNow :: int
  getHours :: int
  getMinutes :: int
  getSeconds :: int

text \<open>
  The three input fields, after \<open>parseInt\<close>: \<open>None\<close> is \<open>NaN\<close> (empty or non-numeric
  text), \<open>Some n\<close> the integer read, which may be negative.
\<close>

record inputs =
  inputH :: "int option"
  inputM :: "int option"
  inputS :: "int option"

subsection \<open>Number formatting\<close>

definition digit_char :: "nat \<Rightarrow> char" where
  "digit_char n = char_of (48 + n)"

fun toDigits :: "nat \<Rightarrow> string" where
  "toDigits n = (if n < 10 then [digit_char n] else toDigits (n div 10) @ [digit_char (n mod 10)])"

declare toDigits.simps [simp del]

definition toString :: "int \<Rightarrow> string" where
  "toString i = (if i < 0 then CHR ''-'' # toDigits (nat (- i)) else toDigits (nat i))"

definition padStart2 :: "string \<Rightarrow> string" where
  "padStart2 t = (if length t < 2 then replicate (2 - length t) CHR ''0'' @ t else t)"

definition pad :: "real \<Rightarrow> string" where
  "pad n = padStart2 (toString \<lfloor>n\<rfloor>)"

text \<open>JavaScript's \<open>%\<close> truncates: the result has the sign of the dividend.\<close>

definition js_rem :: "int \<Rightarrow> int \<Rightarrow> int" where
  "js_rem a b = sgn a * (\<bar>a\<bar> mod \<bar>b\<bar>)"

text \<open>The three lines that both the stopwatch and the timer branch use to print seconds.\<close>

definition hmsText :: "int \<Rightarrow> string" where
  "hmsText totalSecs =
     pad (of_int totalSecs / 3600) @ '':'' @
     pad (of_int (js_rem totalSecs 3600) / 60) @ '':'' @
     pad (of_int (js_rem totalSecs 60))"

subsection \<open>The callbacks\<close>

definition handleTimerComplete :: "state \<Rightarrow> state" where
  "handleTimerComplete st = st\<lparr>btnStartText := ''Start'', alerts := alerts st + 1\<rparr>"

text \<open>The local \<open>elapsed\<close> and \<open>remaining\<close> of \<open>updateDisplay\<close>.\<close>

definition swElapsedNow :: "clockRead \<Rightarrow> state \<Rightarrow> int" where
  "swElapsedNow c st = (if swRunning st then dateNow c - swStartTime st else swElapsedTime st)"

definition timerRemainingNow :: "clockRead \<Rightarrow> state \<Rightarrow> int" where
  "timerRemainingNow c st =
     (if timerRunning st then max 0 (timerEndTime st - dateNow c) else timerRemaining st)"

definition updateDisplay :: "clockRead \<Rightarrow> state \<Rightarrow> state" where
  "updateDisplay c st =
     (case currentMode st of
        CLOCK \<Rightarrow>
          st\<lparr>timeDisplayText :=
                pad (of_int (getHours c)) @ '':'' @ pad (of_int (getMinutes c)) @ '':'' @
                pad (of_int (getSeconds c)),
              modeIndicatorText := ''CLOCK''\<rparr>
      | STOPWATCH \<Rightarrow>
          (let elapsed = swElapsedNow c st;
               totalSecs = \<lfloor>of_int elapsed / (1000 :: real)\<rfloor>
           in st\<lparr>timeDisplayText := hmsText totalSecs, modeIndicatorText := ''STOPWATCH''\<rparr>)
      | TIMER \<Rightarrow>
          (let remaining = timerRemainingNow c st;
               st1 = (if timerRunning st \<and> remaining = 0
                      then handleTimerComplete (st\<lparr>timerRunning := False\<rparr>) else st);
               totalSecs = \<lceil>of_int remaining / (1000 :: real)\<rceil>
           in st1\<lparr>timeDisplayText := hmsText totalSecs, modeIndicatorText := ''TIMER''\<rparr>))"

definition switchMode :: "clockRead \<Rightarrow> AppMode \<Rightarrow> state \<Rightarrow> state" where
  "switchMode c newMode st =
     (let st1 = st\<lparr>currentMode := newMode\<rparr>;
          st2 = (case newMode of
                   CLOCK \<Rightarrow> st1
                 | STOPWATCH \<Rightarrow>
                     st1\<lparr>btnStartText := (if swRunning st1 then ''Pause'' else ''Start'')\<rparr>
                 | TIMER \<Rightarrow>
                     st1\<lparr>btnStartText := (if timerRunning st1 then ''Pause'' else ''Start'')\<rparr>)
      in updateDisplay c st2)"

text \<open>\<open>parseInt(x) || 0\<close>: \<open>NaN\<close> and \<open>0\<close> both give \<open>0\<close>.\<close>

definition or0 :: "int option \<Rightarrow> int" where
  "or0 v = (case v of None \<Rightarrow> 0 | Some n \<Rightarrow> n)"

definition configuredTotal :: "inputs \<Rightarrow> int" where
  "configuredTotal inp =
     (or0 (inputH inp) * 3600 + or0 (inputM inp) * 60 + or0 (inputS inp)) * 1000"

definition btnStartClick :: "clockRead \<Rightarrow> inputs \<Rightarrow> state \<Rightarrow> state" where
  "btnStartClick c inp st =
     (case currentMode st of
        CLOCK \<Rightarrow> st
      | STOPWATCH \<Rightarrow>
          (if \<not> swRunning st
           then st\<lparr>swStartTime := dateNow c - swElapsedTime st, swRunning := True,
                   btnStartText := ''Pause''\<rparr>
           else st\<lparr>swElapsedTime := dateNow c - swStartTime st, swRunning := False,
                   btnStartText := ''Resume''\<rparr>)
      | TIMER \<Rightarrow>
          (if \<not> timerRunning st
           then (if timerRemaining st \<le> 0
                 then (let st1 = st\<lparr>timerRemaining := configuredTotal inp\<rparr>
                       in if timerRemaining st1 \<le> 0 then st1
                          else st1\<lparr>timerInitialSet := timerRemaining st1,
                                   timerEndTime := dateNow c + timerRemaining st1,
                                   timerRunning := True, btnStartText := ''Pause''\<rparr>)
                 else st\<lparr>timerEndTime := dateNow c + timerRemaining st,
                         timerRunning := True, btnStartText := ''Pause''\<rparr>)
           else st\<lparr>timerRemaining := timerEndTime st - dateNow c, timerRunning := False,
                   btnStartText := ''Resume''\<rparr>))"

definition btnResetClick :: "clockRead \<Rightarrow> state \<Rightarrow> state" where
  "btnResetClick c st =
     updateDisplay c
       (case currentMode st of
          CLOCK \<Rightarrow> st
        | STOPWATCH \<Rightarrow>
            st\<lparr>swRunning := False, swElapsedTime := 0, swStartTime := 0,
               btnStartText := ''Start''\<rparr>
        | TIMER \<Rightarrow>
            st\<lparr>timerRunning := False, timerRemaining := 0, btnStartText := ''Start''\<rparr>)"

subsection \<open>Runs of the page\<close>

text \<open>
  The module-level initialisers, followed by the kick-off call of \<open>updateDisplay\<close>. The
  caption the page gives the start button is not set by the module and is a parameter.
\<close>

definition moduleInit :: "string \<Rightarrow> state" where
  "moduleInit caption =
     \<lparr>currentMode = CLOCK, swRunning = False, swStartTime = 0, swElapsedTime = 0,
      timerRunning = False, timerEndTime = 0, timerRemaining = 0, timerInitialSet = 0,
      timeDisplayText = [], modeIndicatorText = [], btnStartText = caption, alerts = 0\<rparr>"

definition initial :: "string \<Rightarrow> clockRead \<Rightarrow> state" where
  "initial caption c = updateDisplay c (moduleInit caption)"

datatype event =
    Tick clockRead
  | ModeButton AppMode clockRead
  | StartPause clockRead inputs
  | Reset clockRead

fun step :: "event \<Rightarrow> state \<Rightarrow> state" where
  "step (Tick c) st = updateDisplay c st"
| "step (ModeButton m c) st = switchMode c m st"
| "step (StartPause c inp) st = btnStartClick c inp st"
| "step (Reset c) st = btnResetClick c st"

fun run :: "event list \<Rightarrow> state \<Rightarrow> state" where
  "run [] st = st"
| "run (e # es) st = run es (step e st)"

text \<open>A clock reading at a given millisecond (the wall-clock fields matter in Clock mode only).\<close>

definition at_ms :: "int \<Rightarrow> clockRead" where
  "at_ms t = \<lparr>dateNow = t, getHours = 0, getMinutes = 0, getSeconds = 0\<rparr>"

definition fields :: "int \<Rightarrow> int \<Rightarrow> int \<Rightarrow> inputs" where
  "fields h m s = \<lparr>inputH = Some h, inputM = Some m, inputS = Some s\<rparr>"

subsection \<open>Reading a displayed time back\<close>

text \<open>
  The module only prints times. To state that a printed stopwatch time carries the right
  number of seconds, this is the reader the property speaks of: split the text at the
  colons and read each of the three fields as a decimal number.
\<close>

definition isDigit :: "char \<Rightarrow> bool" where
  "isDigit ch = (48 \<le> (of_char ch :: nat) \<and> (of_char ch :: nat) \<le> 57)"

definition digitVal :: "char \<Rightarrow> nat" where
  "digitVal ch = of_char ch - 48"

fun digitsToNat :: "nat \<Rightarrow> string \<Rightarrow> nat option" where
  "digitsToNat acc [] = Some acc"
| "digitsToNat acc (ch # t) =
     (if isDigit ch then digitsToNat (10 * acc + digitVal ch) t else None)"

definition parseNat :: "string \<Rightarrow> nat option" where
  "parseNat t = (if t = [] then None else digitsToNat 0 t)"

fun splitOn :: "char \<Rightarrow> string \<Rightarrow> string list" where
  "splitOn d [] = [[]]"
| "splitOn d (ch # t) =
     (if ch = d then [] # splitOn d t
      else (case splitOn d t of [] \<Rightarrow> [[ch]] | w # ws \<Rightarrow> (ch # w) # ws))"

definition parseHMS :: "string \<Rightarrow> (nat \<times> nat \<times> nat) option" where
  "parseHMS t =
     (case splitOn CHR '':'' t of
        [a, b, c] \<Rightarrow>
          (case (parseNat a, parseNat b, parseNat c) of
             (Some h, Some m, Some s) \<Rightarrow> Some (h, m, s)
           | _ \<Rightarrow> None)
      | _ \<Rightarrow> None)"

subsection \<open>Presses that keep the banked time non-negative\<close>

text \<open>
  A press of the start/pause button in Timer mode is \<open>timely\<close> when it pauses a running
  timer no later than its deadline, or starts a fresh run (banked time not positive) from
  inputs whose total is not negative. Every other event is timely.
\<close>

fun timely :: "state \<Rightarrow> event \<Rightarrow> bool" where
  "timely st (StartPause c inp) =
     (currentMode st = TIMER \<longrightarrow>
        (if timerRunning st then dateNow c \<le> timerEndTime st
         else timerRemaining st \<le> 0 \<longrightarrow> 0 \<le> configuredTotal inp))"
| "timely st (Tick c) = True"
| "timely st (ModeButton m c) = True"
| "timely st (Reset c) = True"

fun allTimely :: "state \<Rightarrow> event list \<Rightarrow> bool" where
  "allTimely st [] = True"
| "allTimely st (e # es) = (timely st e \<and> allTimely (step e st) es)"

subsection \<open>Sample runs\<close>

text \<open>
  Concrete states used to evaluate the callbacks. The page is loaded at millisecond 0 with
  the start button captioned \<open>Start\<close>.
\<close>

definition page0 :: state where
  "page0 = initial ''Start'' (at_ms 0)"

text \<open>Timer mode, a 5 s countdown started at 1000 ms: the deadline is 6000 ms.\<close>

definition timer5s :: state where
  "timer5s = run [ModeButton TIMER (at_ms 0), StartPause (at_ms 1000) (fields 0 0 5)] page0"

text \<open>Stopwatch mode, started at 1000 ms and still running.\<close>

definition stopwatchRunning :: state where
  "stopwatchRunning =
     run [ModeButton STOPWATCH (at_ms 0), StartPause (at_ms 1000) (fields 0 0 0)] page0"

text \<open>Stopwatch mode, started at 0 ms and paused at 5000 ms, then the Clock is shown.\<close>

definition stopwatchPaused :: state where
  "stopwatchPaused =
     run [ModeButton STOPWATCH (at_ms 0), StartPause (at_ms 0) (fields 0 0 0),
          StartPause (at_ms 5000) (fields 0 0 0), ModeButton CLOCK (at_ms 6000)] page0"

text \<open>
  A 1 s countdown started at 0 ms, last redrawn at 990 ms and paused at 1005 ms, between
  two redraws and 5 ms after the deadline.
\<close>

definition latePause :: "event list" where
  "latePause =
     [ModeButton TIMER (at_ms 0), StartPause (at_ms 0) (fields 0 0 1), Tick (at_ms 990),
      StartPause (at_ms 1005) (fields 0 0 1)]"

text \<open>The same countdown paused at 600 ms, in time.\<close>

definition earlyPause :: "event list" where
  "earlyPause =
     [ModeButton TIMER (at_ms 0), StartPause (at_ms 0) (fields 0 0 1), Tick (at_ms 500),
      StartPause (at_ms 600) (fields 0 0 1)]"

text \<open>The 5 s countdown left running while the Clock is shown from 2000 ms on.\<close>

definition timerAway :: state where
  "timerAway = run [ModeButton CLOCK (at_ms 2000)] timer5s"

text \<open>Timer mode and Stopwatch mode right after the mode button, nothing started.\<close>

definition timerFresh :: state where
  "timerFresh = run [ModeButton TIMER (at_ms 0)] page0"

definition stopwatchFresh :: state where
  "stopwatchFresh = run [ModeButton STOPWATCH (at_ms 0)] page0"

section \<open>Properties\<close>

subsection \<open>Decimal digits and fields\<close>

lemma isDigit_digit_char: "n < 10 \<Longrightarrow> isDigit (digit_char n)"
  by (simp add: isDigit_def digit_char_def)

lemma digitVal_digit_char: "n < 10 \<Longrightarrow> digitVal (digit_char n) = n"
  by (simp add: digitVal_def digit_char_def)

lemma isDigit_not_colon: "isDigit ch \<Longrightarrow> ch \<noteq> CHR '':''"
  by (auto simp: isDigit_def)

lemma digitsToNat_snoc:
  "isDigit ch \<Longrightarrow> digitsToNat acc (t @ [ch]) = map_option (\<lambda>v. 10 * v + digitVal ch) (digitsToNat acc t)"
  by (induction t arbitrary: acc) auto

lemma toDigits_digits: "\<forall>ch \<in> set (toDigits n). isDigit ch"
proof (induction n rule: toDigits.induct)
  case (1 n)
  show ?case
  proof (cases "n < 10")
    case True
    then show ?thesis by (simp add: toDigits.simps isDigit_digit_char)
  next
    case False
    have "n mod 10 < 10" by simp
    then have "isDigit (digit_char (n mod 10))" by (rule isDigit_digit_char)
    with False 1 show ?thesis by (subst toDigits.simps) auto
  qed
qed

lemma toDigits_nonempty: "toDigits n \<noteq> []"
  by (subst toDigits.simps) simp

lemma digitsToNat_toDigits: "digitsToNat 0 (toDigits n) = Some n"
proof (induction n rule: toDigits.induct)
  case (1 n)
  show ?case
  proof (cases "n < 10")
    case True
    then show ?thesis
      by (simp add: toDigits.simps isDigit_digit_char digitVal_digit_char)
  next
    case False
    have lt: "n mod 10 < 10" by simp
    have "digitsToNat 0 (toDigits (n div 10) @ [digit_char (n mod 10)])
          = map_option (\<lambda>v. 10 * v + digitVal (digit_char (n mod 10))) (digitsToNat 0 (toDigits (n div 10)))"
      by (rule digitsToNat_snoc) (rule isDigit_digit_char [OF lt])
    also have "\<dots> = Some (10 * (n div 10) + n mod 10)"
      using False 1 by (simp add: digitVal_digit_char [OF lt])
    also have "\<dots> = Some n" by simp
    finally show ?thesis using False by (subst toDigits.simps) simp
  qed
qed

lemma isDigit_zero: "isDigit CHR ''0''"
  by (simp add: isDigit_def)

lemma digitVal_zero: "digitVal CHR ''0'' = 0"
  by (simp add: digitVal_def)

lemma digitsToNat_zeros: "digitsToNat 0 (replicate k CHR ''0'' @ t) = digitsToNat 0 t"
  by (induction k) (simp_all add: isDigit_zero digitVal_zero)

lemma padStart2_digits: "\<forall>ch \<in> set t. isDigit ch \<Longrightarrow> \<forall>ch \<in> set (padStart2 t). isDigit ch"
  by (auto simp: padStart2_def isDigit_zero)

lemma parseNat_field: "parseNat (padStart2 (toDigits n)) = Some n"
  using toDigits_nonempty [of n]
  by (simp add: parseNat_def padStart2_def digitsToNat_zeros digitsToNat_toDigits)

lemma field_no_colon: "CHR '':'' \<notin> set (padStart2 (toDigits n))"
  using padStart2_digits [OF toDigits_digits, of n] isDigit_not_colon by blast

lemma splitOn_none: "d \<notin> set t \<Longrightarrow> splitOn d t = [t]"
  by (induction t) auto

lemma splitOn_append: "d \<notin> set a \<Longrightarrow> splitOn d (a @ d # t) = a # splitOn d t"
  by (induction a) (auto split: list.splits)

lemma parseHMS_fields:
  "parseHMS (padStart2 (toDigits h) @ '':'' @ padStart2 (toDigits m) @ '':'' @ padStart2 (toDigits s))
   = Some (h, m, s)"
  by (simp add: parseHMS_def splitOn_append splitOn_none field_no_colon parseNat_field)

subsection \<open>Seconds as hours, minutes and seconds\<close>

lemma hms_sum: "(n::int) div 3600 * 3600 + n mod 3600 div 60 * 60 + n mod 60 = n"
proof -
  have a: "n mod 3600 mod 60 = n mod 60" by (simp add: mod_mod_cancel)
  have b: "n mod 3600 = n mod 3600 div 60 * 60 + n mod 3600 mod 60" by simp
  have c: "n = n div 3600 * 3600 + n mod 3600" by simp
  from a b c show ?thesis by linarith
qed

lemma hms_minutes: "0 \<le> (n::int) mod 3600 div 60 \<and> n mod 3600 div 60 \<le> 59"
proof -
  have "0 \<le> n mod 3600" "n mod 3600 < 3600" by simp_all
  then show ?thesis by linarith
qed

lemma hms_seconds: "0 \<le> (n::int) mod 60 \<and> n mod 60 \<le> 59"
proof -
  have "0 \<le> n mod 60" "n mod 60 < 60" by simp_all
  then show ?thesis by linarith
qed

lemma nat_le_59: "(a::int) \<le> 59 \<Longrightarrow> nat a \<le> 59"
  by linarith

lemma hms_nat:
  assumes "0 \<le> (n::int)"
  shows "int (nat (n div 3600)) * 3600 + int (nat (n mod 3600 div 60)) * 60 + int (nat (n mod 60)) = n"
    and "nat (n mod 3600 div 60) \<le> 59" and "nat (n mod 60) \<le> 59"
proof -
  have h: "0 \<le> n div 3600" using assms by (simp add: pos_imp_zdiv_nonneg_iff)
  have m: "0 \<le> n mod 3600 div 60" using hms_minutes [of n] by (rule conjunct1)
  have s: "0 \<le> n mod 60" using hms_seconds [of n] by (rule conjunct1)
  show "int (nat (n div 3600)) * 3600 + int (nat (n mod 3600 div 60)) * 60 + int (nat (n mod 60)) = n"
    by (simp only: nat_0_le [OF h] nat_0_le [OF m] nat_0_le [OF s] hms_sum)
  show "nat (n mod 3600 div 60) \<le> 59"
    using hms_minutes [of n] by (intro nat_le_59) (rule conjunct2)
  show "nat (n mod 60) \<le> 59"
    using hms_seconds [of n] by (intro nat_le_59) (rule conjunct2)
qed

lemma ceil_shift: "- ((- k) div 1000) = ((k::int) + 999) div 1000"
  by linarith

lemma ceil_pos: "0 < (r::int) \<Longrightarrow> 0 < (r + 999) div 1000"
  by linarith

lemma ceil_one: "0 < (r::int) \<Longrightarrow> r \<le> 1000 \<Longrightarrow> (r + 999) div 1000 = 1"
  by linarith

lemma pad_nat: "0 \<le> k \<Longrightarrow> pad (of_int k) = padStart2 (toDigits (nat k))"
  by (simp add: pad_def toString_def)

lemma floor_div_numeral: "\<lfloor>of_int k / (numeral b :: real)\<rfloor> = k div numeral b"
  using floor_divide_of_int_eq [of k "numeral b", where ?'a = real] by simp

lemma pad_div: "0 \<le> k \<Longrightarrow> pad (of_int k / numeral b) = padStart2 (toDigits (nat (k div numeral b)))"
proof -
  assume "0 \<le> k"
  then have "0 \<le> k div numeral b" by (simp add: pos_imp_zdiv_nonneg_iff)
  then show ?thesis by (simp add: pad_def toString_def floor_div_numeral)
qed

lemma js_rem_nonneg: "0 \<le> a \<Longrightarrow> 0 < b \<Longrightarrow> js_rem a b = a mod b"
  by (cases "a = 0") (simp_all add: js_rem_def)

lemma ceiling_div_numeral: "\<lceil>of_int k / (numeral b :: real)\<rceil> = - ((- k) div numeral b)"
proof -
  have "\<lceil>of_int k / (numeral b :: real)\<rceil> = - \<lfloor>of_int (- k) / (numeral b :: real)\<rfloor>"
    by (simp add: ceiling_def)
  then show ?thesis by (simp only: floor_div_numeral)
qed

lemma hmsText_nonneg:
  assumes "0 \<le> n"
  shows "hmsText n =
     padStart2 (toDigits (nat (n div 3600))) @ '':'' @
     padStart2 (toDigits (nat ((n mod 3600) div 60))) @ '':'' @
     padStart2 (toDigits (nat (n mod 60)))"
proof -
  have a: "pad (of_int n / 3600) = padStart2 (toDigits (nat (n div 3600)))"
    using assms by (rule pad_div)
  have b: "pad (of_int (js_rem n 3600) / 60) = padStart2 (toDigits (nat ((n mod 3600) div 60)))"
    using assms by (simp add: js_rem_nonneg pad_div)
  have c: "pad (of_int (js_rem n 60)) = padStart2 (toDigits (nat (n mod 60)))"
    using assms by (simp add: js_rem_nonneg pad_nat)
  show ?thesis unfolding hmsText_def a b c ..
qed

lemma parseHMS_hmsText:
  "0 \<le> n \<Longrightarrow> parseHMS (hmsText n) = Some (nat (n div 3600), nat ((n mod 3600) div 60), nat (n mod 60))"
  by (simp only: hmsText_nonneg parseHMS_fields)

lemma ceiling_1000: "\<lceil>of_int k / (1000 :: real)\<rceil> = (k + 999) div 1000"
proof -
  have "\<lceil>of_int k / (1000 :: real)\<rceil> = - ((- k) div 1000)" by (rule ceiling_div_numeral)
  also have "\<dots> = (k + 999) div 1000" by (rule ceil_shift)
  finally show ?thesis .
qed

lemma hmsText_zero_iff:
  assumes "0 \<le> n"
  shows "hmsText n = ''00:00:00'' \<longleftrightarrow> n = 0"
proof
  assume e: "hmsText n = ''00:00:00''"
  have z: "hmsText 0 = ''00:00:00''" by code_simp
  have "parseHMS (hmsText n) = parseHMS (hmsText 0)" by (simp only: e z)
  then have "nat (n div 3600) = 0 \<and> nat (n mod 3600 div 60) = 0 \<and> nat (n mod 60) = 0"
    using assms by (simp add: parseHMS_hmsText)
  then show "n = 0" using hms_nat(1) [OF assms] by simp
next
  assume "n = 0"
  moreover have "hmsText 0 = ''00:00:00''" by code_simp
  ultimately show "hmsText n = ''00:00:00''" by simp
qed

lemma hmsText_one: "hmsText 1 = ''00:00:01''"
  by code_simp

subsection \<open>What the redraw changes\<close>

lemma updateDisplay_timerRemaining: "timerRemaining (updateDisplay c st) = timerRemaining st"
  by (cases "currentMode st") (simp_all add: updateDisplay_def handleTimerComplete_def Let_def)

lemma updateDisplay_idle_timer:
  "currentMode st = TIMER \<Longrightarrow> \<not> timerRunning st \<Longrightarrow>
   updateDisplay c st =
     st\<lparr>timeDisplayText := hmsText \<lceil>of_int (timerRemaining st) / (1000 :: real)\<rceil>,
        modeIndicatorText := ''TIMER''\<rparr>"
  by (simp add: updateDisplay_def timerRemainingNow_def Let_def)

lemma updateDisplay_expiry:
  "currentMode st = TIMER \<Longrightarrow> timerRunning st \<Longrightarrow> timerEndTime st \<le> dateNow c \<Longrightarrow>
   updateDisplay c st =
     st\<lparr>timerRunning := False, btnStartText := ''Start'', alerts := alerts st + 1,
        timeDisplayText := hmsText 0, modeIndicatorText := ''TIMER''\<rparr>"
  by (simp add: updateDisplay_def timerRemainingNow_def handleTimerComplete_def Let_def max_def)

lemma ticks_idle_timer:
  "currentMode st = TIMER \<Longrightarrow> \<not> timerRunning st \<Longrightarrow>
   \<exists>dsp ind. run (map Tick cs) st = st\<lparr>timeDisplayText := dsp, modeIndicatorText := ind\<rparr>"
proof (induction cs arbitrary: st)
  case Nil
  show ?case
    by (simp, intro exI [of _ "timeDisplayText st"] exI [of _ "modeIndicatorText st"]) simp
next
  case (Cons c cs)
  let ?s1 = "updateDisplay c st"
  have s1: "?s1 = st\<lparr>timeDisplayText := hmsText \<lceil>of_int (timerRemaining st) / (1000 :: real)\<rceil>,
        modeIndicatorText := ''TIMER''\<rparr>"
    using Cons.prems by (rule updateDisplay_idle_timer)
  have "currentMode ?s1 = TIMER" "\<not> timerRunning ?s1"
    using Cons.prems by (simp_all add: s1)
  from Cons.IH [OF this] obtain dsp ind where
    "run (map Tick cs) ?s1 = ?s1\<lparr>timeDisplayText := dsp, modeIndicatorText := ind\<rparr>" by blast
  then have "run (map Tick (c # cs)) st = st\<lparr>timeDisplayText := dsp, modeIndicatorText := ind\<rparr>"
    by (simp add: s1)
  then show ?case by blast
qed

lemma updateDisplay_stopwatch_fields:
  "swRunning (updateDisplay c st) = swRunning st
   \<and> swStartTime (updateDisplay c st) = swStartTime st
   \<and> swElapsedTime (updateDisplay c st) = swElapsedTime st"
  by (cases "currentMode st") (simp_all add: updateDisplay_def handleTimerComplete_def Let_def)

lemma switchMode_stopwatch_fields:
  "swRunning (switchMode c m st) = swRunning st
   \<and> swStartTime (switchMode c m st) = swStartTime st
   \<and> swElapsedTime (switchMode c m st) = swElapsedTime st"
  by (cases m) (simp_all add: switchMode_def updateDisplay_stopwatch_fields)

lemma switchMode_timer_banked:
  "timerEndTime (switchMode c m st) = timerEndTime st
   \<and> timerRemaining (switchMode c m st) = timerRemaining st
   \<and> timerInitialSet (switchMode c m st) = timerInitialSet st"
  by (cases m)
     (simp_all add: switchMode_def updateDisplay_def handleTimerComplete_def Let_def)

lemma switchMode_timerRunning:
  "timerRunning (switchMode c m st) =
     (if m = TIMER then timerRunning st \<and> dateNow c < timerEndTime st else timerRunning st)"
  by (cases m)
     (auto simp add: switchMode_def updateDisplay_def handleTimerComplete_def
        timerRemainingNow_def Let_def max_def)

lemma step_remaining_nonneg:
  "0 \<le> timerRemaining st \<Longrightarrow> timely st e \<Longrightarrow> 0 \<le> timerRemaining (step e st)"
proof (cases e)
  case (Tick c)
  assume "0 \<le> timerRemaining st"
  then show ?thesis by (simp add: Tick updateDisplay_timerRemaining)
next
  case (ModeButton m c)
  assume "0 \<le> timerRemaining st"
  then show ?thesis
    by (cases m) (simp_all add: ModeButton switchMode_def updateDisplay_timerRemaining)
next
  case (StartPause c inp)
  assume "0 \<le> timerRemaining st" and "timely st e"
  then show ?thesis
    by (cases "currentMode st") (auto simp add: StartPause btnStartClick_def Let_def)
next
  case (Reset c)
  assume "0 \<le> timerRemaining st"
  then show ?thesis
    by (cases "currentMode st") (simp_all add: Reset btnResetClick_def updateDisplay_timerRemaining)
qed

lemma run_remaining_nonneg:
  "0 \<le> timerRemaining st \<Longrightarrow> allTimely st es \<Longrightarrow> 0 \<le> timerRemaining (run es st)"
  by (induction es arbitrary: st) (simp_all add: step_remaining_nonneg)

subsection \<open>Timer expiry\<close>

text \<open>
  Claim C1. A running Timer whose deadline has passed is redrawn as zero, stops once and
  raises the completion signal once; the redraws after that are claimed to keep showing
  zero. Evaluated on a 5 s countdown with deadline 6000 ms: the redraw at 6000 ms shows
  \<open>00:00:00\<close>, stops the timer and raises one alert; the redraw at 6100 ms raises no
  second alert, but shows \<open>00:00:05\<close>, the time banked at the start, not zero.
\<close>

theorem timer_expiry_stale_display:
  "timerRunning timer5s \<and> timerEndTime timer5s = 6000 \<and> alerts timer5s = 0
   \<and> timeDisplayText (run [Tick (at_ms 6000)] timer5s) = ''00:00:00''
   \<and> \<not> timerRunning (run [Tick (at_ms 6000)] timer5s)
   \<and> alerts (run [Tick (at_ms 6000)] timer5s) = 1
   \<and> alerts (run [Tick (at_ms 6000), Tick (at_ms 6100)] timer5s) = 1
   \<and> timeDisplayText (run [Tick (at_ms 6000), Tick (at_ms 6100)] timer5s) = ''00:00:05''"
  by code_simp

text \<open>
  Claim C2. The expiry taken inside the redraw clears the running flag and fires the
  completion effect (caption \<open>Start\<close>, one more alert) and changes no other timing field:
  the banked \<open>timerRemaining\<close> keeps the value of the last start or pause. Through any
  number of later redraws it stays so, each of them shows that banked value, and if it is
  positive the next press of start/pause starts a run of that length, whatever the input
  fields hold.
\<close>

theorem timer_expiry_frame:
  assumes "currentMode st = TIMER" and "timerRunning st" and "timerEndTime st \<le> dateNow c"
  shows "updateDisplay c st =
           st\<lparr>timerRunning := False, btnStartText := ''Start'', alerts := alerts st + 1,
              timeDisplayText := hmsText 0, modeIndicatorText := ''TIMER''\<rparr>
         \<and> timerRemaining (run (map Tick cs) (updateDisplay c st)) = timerRemaining st
         \<and> timeDisplayText (updateDisplay c' (run (map Tick cs) (updateDisplay c st))) =
             hmsText \<lceil>of_int (timerRemaining st) / (1000 :: real)\<rceil>
         \<and> (0 < timerRemaining st \<longrightarrow>
              btnStartClick c' inp (run (map Tick cs) (updateDisplay c st)) =
                (run (map Tick cs) (updateDisplay c st))
                  \<lparr>timerEndTime := dateNow c' + timerRemaining st, timerRunning := True,
                   btnStartText := ''Pause''\<rparr>)"
proof -
  let ?s0 = "updateDisplay c st"
  let ?sn = "run (map Tick cs) ?s0"
  have s0: "?s0 = st\<lparr>timerRunning := False, btnStartText := ''Start'', alerts := alerts st + 1,
              timeDisplayText := hmsText 0, modeIndicatorText := ''TIMER''\<rparr>"
    using assms by (rule updateDisplay_expiry)
  have idle0: "currentMode ?s0 = TIMER" "\<not> timerRunning ?s0"
    using assms(1) by (simp_all add: s0)
  obtain dsp ind where sn: "?sn = ?s0\<lparr>timeDisplayText := dsp, modeIndicatorText := ind\<rparr>"
    using ticks_idle_timer [OF idle0] by blast
  have idle: "currentMode ?sn = TIMER" "\<not> timerRunning ?sn"
    using idle0 by (simp_all add: sn)
  have rem: "timerRemaining ?sn = timerRemaining st"
    by (simp add: sn) (simp add: s0)
  have shown: "timeDisplayText (updateDisplay c' ?sn) =
      hmsText \<lceil>of_int (timerRemaining st) / (1000 :: real)\<rceil>"
    by (simp add: updateDisplay_idle_timer [OF idle] rem)
  have press: "0 < timerRemaining st \<longrightarrow>
      btnStartClick c' inp ?sn =
        ?sn\<lparr>timerEndTime := dateNow c' + timerRemaining st, timerRunning := True,
            btnStartText := ''Pause''\<rparr>"
    using idle rem by (simp add: btnStartClick_def)
  from s0 rem shown press show ?thesis by blast
qed

theorem timer_expiry_frame_witness:
  "currentMode timer5s = TIMER \<and> timerRunning timer5s
   \<and> timerEndTime timer5s \<le> dateNow (at_ms 6000)
   \<and> 0 < timerRemaining timer5s
   \<and> timerRemaining (run (map Tick [at_ms 6100, at_ms 6200]) (updateDisplay (at_ms 6000) timer5s))
       = 5000
   \<and> timeDisplayText
         (updateDisplay (at_ms 6300)
            (run (map Tick [at_ms 6100, at_ms 6200]) (updateDisplay (at_ms 6000) timer5s)))
       = hmsText 5
   \<and> timerEndTime
         (btnStartClick (at_ms 6300) (fields 0 0 9)
            (run (map Tick [at_ms 6100, at_ms 6200]) (updateDisplay (at_ms 6000) timer5s)))
       = 11300"
proof -
  have h1: "currentMode timer5s = TIMER" by code_simp
  have h2: "timerRunning timer5s" by code_simp
  have h3: "timerEndTime timer5s \<le> dateNow (at_ms 6000)" by code_simp
  have r: "timerRemaining timer5s = 5000" by code_simp
  have k: "\<lceil>of_int 5000 / (1000 :: real)\<rceil> = 5" by simp
  have now: "dateNow (at_ms 6300) = 6300" by (simp add: at_ms_def)
  note f = timer_expiry_frame [OF h1 h2 h3, of "[at_ms 6100, at_ms 6200]" "at_ms 6300" "fields 0 0 9"]
  have a: "timerRemaining (run (map Tick [at_ms 6100, at_ms 6200]) (updateDisplay (at_ms 6000) timer5s))
       = 5000"
    using f [THEN conjunct2, THEN conjunct1] by (simp only: r)
  have b: "timeDisplayText
         (updateDisplay (at_ms 6300)
            (run (map Tick [at_ms 6100, at_ms 6200]) (updateDisplay (at_ms 6000) timer5s)))
       = hmsText 5"
    using f [THEN conjunct2, THEN conjunct2, THEN conjunct1] by (simp only: r k)
  have "btnStartClick (at_ms 6300) (fields 0 0 9)
          (run (map Tick [at_ms 6100, at_ms 6200]) (updateDisplay (at_ms 6000) timer5s)) =
        (run (map Tick [at_ms 6100, at_ms 6200]) (updateDisplay (at_ms 6000) timer5s))
          \<lparr>timerEndTime := dateNow (at_ms 6300) + timerRemaining timer5s, timerRunning := True,
           btnStartText := ''Pause''\<rparr>"
    using f [THEN conjunct2, THEN conjunct2, THEN conjunct2] r by simp
  then have c: "timerEndTime
         (btnStartClick (at_ms 6300) (fields 0 0 9)
            (run (map Tick [at_ms 6100, at_ms 6200]) (updateDisplay (at_ms 6000) timer5s)))
       = 11300"
    by (simp add: r now)
  have p: "0 < timerRemaining timer5s" by (simp add: r)
  from h1 h2 h3 p a b c show ?thesis by blast
qed

subsection \<open>The caption after a mode switch\<close>

text \<open>
  Claim C3. After every mode switch the start/pause caption follows from the new mode's
  state: \<open>Pause\<close> if that mode is running, \<open>Resume\<close> if the Stopwatch is not running
  but has banked time, \<open>Start\<close> otherwise. Evaluated on a Stopwatch started at 0 ms and
  paused at 5000 ms: the pause press captions the button \<open>Resume\<close>, and the caption is
  still \<open>Resume\<close> while the Clock is shown; switching back to the Stopwatch, still not
  running and with the 5000 ms still banked, captions it \<open>Start\<close>.
\<close>

theorem switchMode_caption_paused_stopwatch:
  "\<not> swRunning stopwatchPaused \<and> swElapsedTime stopwatchPaused = 5000
   \<and> btnStartText stopwatchPaused = ''Resume''
   \<and> \<not> swRunning (switchMode (at_ms 7000) STOPWATCH stopwatchPaused)
   \<and> swElapsedTime (switchMode (at_ms 7000) STOPWATCH stopwatchPaused) = 5000
   \<and> btnStartText (switchMode (at_ms 7000) STOPWATCH stopwatchPaused) = ''Start''
   \<and> btnStartText (switchMode (at_ms 7000) STOPWATCH stopwatchPaused) \<noteq> ''Resume''"
  by code_simp

subsection \<open>The sign of the banked remaining time\<close>

text \<open>
  Claim C4, as stated: in every state reachable from the initial one by presses, resets,
  mode switches and redraws, the banked \<open>timerRemaining\<close> is at least 0. It fails when a
  running Timer is paused after its deadline but before the next redraw: the pause stores
  the raw difference \<open>timerEndTime - now\<close>.
\<close>

theorem timer_remaining_counterexample:
  "timerRemaining (run latePause (initial ''Start'' (at_ms 0))) = - 5
   \<and> \<not> 0 \<le> timerRemaining (run latePause (initial ''Start'' (at_ms 0)))"
  by code_simp

text \<open>
  Claim C4, amended: in every state reached from the initial one by a run of presses,
  resets, mode switches and redraws in which every Timer press is timely (a pause no later
  than the deadline, a fresh start from a total that is not negative), the banked
  \<open>timerRemaining\<close> is at least 0.
\<close>

theorem timer_remaining_nonneg:
  "allTimely (initial caption c0) es \<Longrightarrow> 0 \<le> timerRemaining (run es (initial caption c0))"
  by (rule run_remaining_nonneg)
     (simp add: initial_def updateDisplay_timerRemaining moduleInit_def)

theorem timer_remaining_nonneg_witness:
  "allTimely (initial ''Start'' (at_ms 0)) earlyPause
   \<and> 0 \<le> timerRemaining (run earlyPause (initial ''Start'' (at_ms 0)))"
proof -
  have h: "allTimely (initial ''Start'' (at_ms 0)) earlyPause" by code_simp
  from timer_remaining_nonneg [OF h] h show ?thesis by blast
qed

subsection \<open>A start that is refused\<close>

text \<open>
  Claim C5, as stated: a start attempt on a Timer that is not running and has no positive
  banked time, with a configured total that is not positive, changes nothing. It fails
  because the total is stored in \<open>timerRemaining\<close> before it is tested: after a late
  pause has banked -5 ms, a press with all-zero inputs changes the banked time to 0, and on
  a fresh Timer a press with -1 in the hours field banks -3600000 ms.
\<close>

theorem timer_start_abort_counterexample:
  "currentMode (run latePause page0) = TIMER \<and> \<not> timerRunning (run latePause page0)
   \<and> timerRemaining (run latePause page0) = - 5
   \<and> configuredTotal (fields 0 0 0) = 0
   \<and> timerRemaining (btnStartClick (at_ms 2000) (fields 0 0 0) (run latePause page0)) = 0
   \<and> currentMode timerFresh = TIMER \<and> \<not> timerRunning timerFresh
   \<and> timerRemaining timerFresh = 0
   \<and> configuredTotal (fields (- 1) 0 0) = - 3600000
   \<and> timerRemaining (btnStartClick (at_ms 1) (fields (- 1) 0 0) timerFresh) = - 3600000"
  by code_simp

text \<open>
  Claim C5, amended: a start attempt on a Timer that is not running and has no positive
  banked time, with a configured total that is not positive, stores that total in
  \<open>timerRemaining\<close> and changes nothing else: the Timer is not started. In particular,
  with all three inputs zero (or not numbers) it leaves the Timer not running with
  \<open>timerRemaining = 0\<close>.
\<close>

theorem timer_start_abort:
  assumes "currentMode st = TIMER" and "\<not> timerRunning st" and "timerRemaining st \<le> 0"
    and "configuredTotal inp \<le> 0"
  shows "btnStartClick c inp st = st\<lparr>timerRemaining := configuredTotal inp\<rparr>
         \<and> \<not> timerRunning (btnStartClick c inp st)
         \<and> (or0 (inputH inp) = 0 \<and> or0 (inputM inp) = 0 \<and> or0 (inputS inp) = 0 \<longrightarrow>
              timerRemaining (btnStartClick c inp st) = 0)"
  using assms by (simp add: btnStartClick_def Let_def configuredTotal_def)

theorem timer_start_abort_witness:
  "currentMode timerFresh = TIMER \<and> \<not> timerRunning timerFresh
   \<and> timerRemaining timerFresh \<le> 0 \<and> configuredTotal (fields 0 0 0) \<le> 0
   \<and> \<not> timerRunning (btnStartClick (at_ms 10) (fields 0 0 0) timerFresh)
   \<and> timerRemaining (btnStartClick (at_ms 10) (fields 0 0 0) timerFresh) = 0"
proof -
  have h1: "currentMode timerFresh = TIMER" by code_simp
  have h2: "\<not> timerRunning timerFresh" by code_simp
  have h3: "timerRemaining timerFresh \<le> 0" by code_simp
  have h4: "configuredTotal (fields 0 0 0) \<le> 0" by code_simp
  have z: "or0 (inputH (fields 0 0 0)) = 0 \<and> or0 (inputM (fields 0 0 0)) = 0
           \<and> or0 (inputS (fields 0 0 0)) = 0"
    by (simp add: fields_def or0_def)
  from timer_start_abort [OF h1 h2 h3 h4, of "at_ms 10"] z h1 h2 h3 h4 show ?thesis by blast
qed

subsection \<open>Mode switches and the other modes\<close>

text \<open>
  Claim C6, as stated: every mode switch preserves the Stopwatch's running flag, start
  instant and banked time, and likewise all Timer fields. It fails for the Timer's running
  flag on a switch to the Timer: the switch ends with a redraw, and with the 5 s countdown
  (deadline 6000 ms) left running behind the Clock, switching back at 7000 ms stops it and
  raises the alert.
\<close>

theorem switchMode_frame_counterexample:
  "currentMode timerAway = CLOCK \<and> timerRunning timerAway \<and> timerEndTime timerAway = 6000
   \<and> alerts timerAway = 0
   \<and> \<not> timerRunning (switchMode (at_ms 7000) TIMER timerAway)
   \<and> alerts (switchMode (at_ms 7000) TIMER timerAway) = 1
   \<and> timerRunning (switchMode (at_ms 7000) TIMER timerAway) \<noteq> timerRunning timerAway"
  by code_simp

text \<open>
  Claim C6, amended: a mode switch leaves the timing state of the modes it does not switch
  to as it was. The Stopwatch's running flag, start instant and banked time survive every
  switch, so after switching to the Timer and back the Stopwatch shows the elapsed time it
  would have shown without the switches. Switching to the Clock or the Stopwatch leaves
  all four Timer fields alone. Switching to the Timer keeps its deadline, banked time and
  configured total; its running flag stays set exactly if it was set and the deadline is
  still ahead.
\<close>

theorem switchMode_frame:
  "swRunning (switchMode c m st) = swRunning st
   \<and> swStartTime (switchMode c m st) = swStartTime st
   \<and> swElapsedTime (switchMode c m st) = swElapsedTime st
   \<and> swElapsedNow c' (switchMode c2 STOPWATCH (switchMode c TIMER st)) = swElapsedNow c' st
   \<and> (m \<noteq> TIMER \<longrightarrow>
        timerRunning (switchMode c m st) = timerRunning st
        \<and> timerEndTime (switchMode c m st) = timerEndTime st
        \<and> timerRemaining (switchMode c m st) = timerRemaining st
        \<and> timerInitialSet (switchMode c m st) = timerInitialSet st)
   \<and> (m = TIMER \<longrightarrow>
        timerRunning (switchMode c m st) = (timerRunning st \<and> dateNow c < timerEndTime st)
        \<and> timerEndTime (switchMode c m st) = timerEndTime st
        \<and> timerRemaining (switchMode c m st) = timerRemaining st
        \<and> timerInitialSet (switchMode c m st) = timerInitialSet st)"
proof -
  have roundtrip: "swElapsedNow c' (switchMode c2 STOPWATCH (switchMode c TIMER st)) = swElapsedNow c' st"
    by (simp add: swElapsedNow_def switchMode_stopwatch_fields)
  show ?thesis
    by (simp add: switchMode_stopwatch_fields switchMode_timer_banked switchMode_timerRunning
          roundtrip)
qed

theorem switchMode_frame_witness:
  "swRunning (switchMode (at_ms 2000) TIMER stopwatchRunning)
   \<and> swStartTime (switchMode (at_ms 2000) TIMER stopwatchRunning) = 1000
   \<and> swElapsedNow (at_ms 9000)
        (switchMode (at_ms 3000) STOPWATCH (switchMode (at_ms 2000) TIMER stopwatchRunning)) = 8000
   \<and> CLOCK \<noteq> TIMER
   \<and> timerRunning (switchMode (at_ms 7000) CLOCK timer5s)
   \<and> timerRemaining (switchMode (at_ms 7000) CLOCK timer5s) = 5000
   \<and> \<not> timerRunning (switchMode (at_ms 7000) TIMER timer5s)"
proof -
  have s: "swRunning stopwatchRunning" "swStartTime stopwatchRunning = 1000" by code_simp+
  have e: "swElapsedNow (at_ms 9000) stopwatchRunning = 8000" by code_simp
  have t: "timerRunning timer5s" "timerRemaining timer5s = 5000" "timerEndTime timer5s = 6000"
    by code_simp+
  have n: "dateNow (at_ms 7000) = 7000" by (simp add: at_ms_def)
  show ?thesis
    using switchMode_frame [of "at_ms 2000" TIMER stopwatchRunning "at_ms 9000" "at_ms 3000"]
      switchMode_frame [of "at_ms 7000" CLOCK timer5s]
      switchMode_frame [of "at_ms 7000" TIMER timer5s]
    by (simp add: s e t n)
qed

subsection \<open>Reset\<close>

text \<open>
  Claim C7. Reset acts on the active mode only, whether that mode is running or not. With
  the Stopwatch active it leaves the Stopwatch not running with banked time (and start
  instant) 0 and changes no Timer field; with the Timer active it leaves the Timer not
  running with \<open>timerRemaining = 0\<close> and changes no Stopwatch field.
\<close>

theorem reset_mode_scoped:
  "(currentMode st = STOPWATCH \<longrightarrow>
      \<not> swRunning (btnResetClick c st) \<and> swElapsedTime (btnResetClick c st) = 0
      \<and> swStartTime (btnResetClick c st) = 0
      \<and> timerRunning (btnResetClick c st) = timerRunning st
      \<and> timerEndTime (btnResetClick c st) = timerEndTime st
      \<and> timerRemaining (btnResetClick c st) = timerRemaining st
      \<and> timerInitialSet (btnResetClick c st) = timerInitialSet st)
   \<and> (currentMode st = TIMER \<longrightarrow>
      \<not> timerRunning (btnResetClick c st) \<and> timerRemaining (btnResetClick c st) = 0
      \<and> swRunning (btnResetClick c st) = swRunning st
      \<and> swStartTime (btnResetClick c st) = swStartTime st
      \<and> swElapsedTime (btnResetClick c st) = swElapsedTime st)"
  by (cases "currentMode st")
     (simp_all add: btnResetClick_def updateDisplay_def timerRemainingNow_def Let_def)

theorem reset_mode_scoped_witness:
  "currentMode stopwatchRunning = STOPWATCH
   \<and> \<not> swRunning (btnResetClick (at_ms 3000) stopwatchRunning)
   \<and> swElapsedTime (btnResetClick (at_ms 3000) stopwatchRunning) = 0
   \<and> timerRemaining (btnResetClick (at_ms 3000) stopwatchRunning) = timerRemaining stopwatchRunning
   \<and> currentMode timer5s = TIMER
   \<and> \<not> timerRunning (btnResetClick (at_ms 3000) timer5s)
   \<and> timerRemaining (btnResetClick (at_ms 3000) timer5s) = 0
   \<and> swElapsedTime (btnResetClick (at_ms 3000) timer5s) = swElapsedTime timer5s"
proof -
  have h1: "currentMode stopwatchRunning = STOPWATCH" by code_simp
  have h2: "currentMode timer5s = TIMER" by code_simp
  from reset_mode_scoped [of stopwatchRunning "at_ms 3000"]
    reset_mode_scoped [of timer5s "at_ms 3000"] h1 h2
  show ?thesis by blast
qed

subsection \<open>Rounding to seconds\<close>

text \<open>
  Claim C8. The redraw shows the Stopwatch's elapsed milliseconds rounded down to whole
  seconds and the Timer's remaining milliseconds rounded up. So a running countdown with
  time left never shows \<open>00:00:00\<close> and is not stopped by the redraw, and with at most
  one second left (400 ms, say) it shows \<open>00:00:01\<close>.
\<close>

theorem display_rounding:
  "(currentMode st = STOPWATCH \<longrightarrow>
      timeDisplayText (updateDisplay c st) = hmsText (swElapsedNow c st div 1000))
   \<and> (currentMode st = TIMER \<longrightarrow>
      timeDisplayText (updateDisplay c st) = hmsText ((timerRemainingNow c st + 999) div 1000))
   \<and> (currentMode st = TIMER \<and> timerRunning st \<and> dateNow c < timerEndTime st \<longrightarrow>
      timeDisplayText (updateDisplay c st) \<noteq> ''00:00:00''
      \<and> timerRunning (updateDisplay c st)
      \<and> (timerEndTime st - dateNow c \<le> 1000 \<longrightarrow>
           timeDisplayText (updateDisplay c st) = ''00:00:01''))"
proof (intro conjI impI)
  assume "currentMode st = STOPWATCH"
  then show "timeDisplayText (updateDisplay c st) = hmsText (swElapsedNow c st div 1000)"
    by (simp add: updateDisplay_def Let_def floor_div_numeral)
next
  assume "currentMode st = TIMER"
  then show "timeDisplayText (updateDisplay c st) = hmsText ((timerRemainingNow c st + 999) div 1000)"
    by (simp add: updateDisplay_def Let_def ceiling_1000)
next
  assume a: "currentMode st = TIMER \<and> timerRunning st \<and> dateNow c < timerEndTime st"
  let ?r = "timerEndTime st - dateNow c"
  have r: "timerRemainingNow c st = ?r" "0 < ?r"
    using a by (simp_all add: timerRemainingNow_def)
  have shown: "timeDisplayText (updateDisplay c st) = hmsText ((?r + 999) div 1000)"
    using a r by (simp add: updateDisplay_def Let_def ceiling_1000)
  have pos: "0 < (?r + 999) div 1000" using r(2) by (rule ceil_pos)
  then show "timeDisplayText (updateDisplay c st) \<noteq> ''00:00:00''"
    by (simp add: shown hmsText_zero_iff)
  show "timerRunning (updateDisplay c st)"
    using a r by (simp add: updateDisplay_def Let_def)
  assume "?r \<le> 1000"
  with r(2) have "(?r + 999) div 1000 = 1" by (rule ceil_one)
  then show "timeDisplayText (updateDisplay c st) = ''00:00:01''"
    by (simp add: shown hmsText_one)
qed

theorem display_rounding_witness:
  "currentMode timer5s = TIMER \<and> timerRunning timer5s
   \<and> dateNow (at_ms 5600) < timerEndTime timer5s
   \<and> timerEndTime timer5s - dateNow (at_ms 5600) = 400
   \<and> timeDisplayText (updateDisplay (at_ms 5600) timer5s) = ''00:00:01''
   \<and> timeDisplayText (updateDisplay (at_ms 5600) timer5s) \<noteq> ''00:00:00''
   \<and> currentMode stopwatchRunning = STOPWATCH
   \<and> swElapsedNow (at_ms 2999) stopwatchRunning = 1999
   \<and> timeDisplayText (updateDisplay (at_ms 2999) stopwatchRunning) = hmsText 1"
proof -
  have h1: "currentMode timer5s = TIMER" by code_simp
  have h2: "timerRunning timer5s" by code_simp
  have h3: "dateNow (at_ms 5600) < timerEndTime timer5s" by code_simp
  have h4: "timerEndTime timer5s - dateNow (at_ms 5600) = 400" by code_simp
  have h5: "currentMode stopwatchRunning = STOPWATCH" by code_simp
  have h6: "swElapsedNow (at_ms 2999) stopwatchRunning = 1999" by code_simp
  have d: "(1999 :: int) div 1000 = 1" by simp
  note t = display_rounding [of timer5s "at_ms 5600"]
  have le: "timerEndTime timer5s - dateNow (at_ms 5600) \<le> 1000" by (simp add: h4)
  have a: "timeDisplayText (updateDisplay (at_ms 5600) timer5s) = ''00:00:01''"
    using t h1 h2 h3 le by blast
  have b: "timeDisplayText (updateDisplay (at_ms 5600) timer5s) \<noteq> ''00:00:00''"
    using t h1 h2 h3 by blast
  have c: "timeDisplayText (updateDisplay (at_ms 2999) stopwatchRunning) = hmsText 1"
    using display_rounding [of stopwatchRunning "at_ms 2999", THEN conjunct1] h5 by (simp add: h6 d)
  from h1 h2 h3 h4 h5 h6 a b c show ?thesis by blast
qed

subsection \<open>The Stopwatch toggle\<close>

text \<open>
  Claim C9. With the Stopwatch active, a press while it is not running sets the start
  instant to \<open>now - accumulated\<close> and starts it; a press while it is running banks
  \<open>now - startInstant\<close> and stops it. Hence start, pause, start, pause with \<open>t1\<close> and \<open>t2\<close>
  milliseconds between the presses of each pair adds \<open>t1 + t2\<close> to the banked time (from
  a fresh Stopwatch the banked time is \<open>t1 + t2\<close>), and a start followed by a later pause
  never lowers it.
\<close>

theorem stopwatch_toggle:
  assumes "currentMode st = STOPWATCH"
  shows "(\<not> swRunning st \<longrightarrow>
            btnStartClick c inp st =
              st\<lparr>swStartTime := dateNow c - swElapsedTime st, swRunning := True,
                 btnStartText := ''Pause''\<rparr>)
         \<and> (swRunning st \<longrightarrow>
            btnStartClick c inp st =
              st\<lparr>swElapsedTime := dateNow c - swStartTime st, swRunning := False,
                 btnStartText := ''Resume''\<rparr>)
         \<and> (\<not> swRunning st \<longrightarrow>
            swElapsedTime
              (run [StartPause c1 i1, StartPause c2 i2, StartPause c3 i3, StartPause c4 i4] st) =
            swElapsedTime st + (dateNow c2 - dateNow c1) + (dateNow c4 - dateNow c3))
         \<and> (\<not> swRunning st \<and> dateNow c1 \<le> dateNow c2 \<longrightarrow>
            swElapsedTime st \<le> swElapsedTime (run [StartPause c1 i1, StartPause c2 i2] st))"
  using assms by (simp add: btnStartClick_def)

theorem stopwatch_toggle_witness:
  "currentMode stopwatchFresh = STOPWATCH \<and> \<not> swRunning stopwatchFresh
   \<and> swElapsedTime stopwatchFresh = 0
   \<and> swElapsedTime
        (run [StartPause (at_ms 1000) (fields 0 0 0), StartPause (at_ms 3000) (fields 0 0 0),
              StartPause (at_ms 10000) (fields 0 0 0), StartPause (at_ms 14000) (fields 0 0 0)]
           stopwatchFresh) = 2000 + 4000"
proof -
  have h1: "currentMode stopwatchFresh = STOPWATCH" by code_simp
  have h2: "\<not> swRunning stopwatchFresh" by code_simp
  have h3: "swElapsedTime stopwatchFresh = 0" by code_simp
  have n: "dateNow (at_ms 1000) = 1000" "dateNow (at_ms 3000) = 3000"
    "dateNow (at_ms 10000) = 10000" "dateNow (at_ms 14000) = 14000"
    by (simp_all add: at_ms_def)
  have "swElapsedTime
        (run [StartPause (at_ms 1000) (fields 0 0 0), StartPause (at_ms 3000) (fields 0 0 0),
              StartPause (at_ms 10000) (fields 0 0 0), StartPause (at_ms 14000) (fields 0 0 0)]
           stopwatchFresh) =
        swElapsedTime stopwatchFresh + (dateNow (at_ms 3000) - dateNow (at_ms 1000))
          + (dateNow (at_ms 14000) - dateNow (at_ms 10000))"
    using stopwatch_toggle [OF h1, where ?c1.0 = "at_ms 1000" and ?c2.0 = "at_ms 3000"
        and ?c3.0 = "at_ms 10000" and ?c4.0 = "at_ms 14000" and ?i1.0 = "fields 0 0 0"
        and ?i2.0 = "fields 0 0 0" and ?i3.0 = "fields 0 0 0" and ?i4.0 = "fields 0 0 0"] h2
    by blast
  then have "swElapsedTime
        (run [StartPause (at_ms 1000) (fields 0 0 0), StartPause (at_ms 3000) (fields 0 0 0),
              StartPause (at_ms 10000) (fields 0 0 0), StartPause (at_ms 14000) (fields 0 0 0)]
           stopwatchFresh) = 2000 + 4000"
    by (simp add: h3 n)
  with h1 h2 h3 show ?thesis by blast
qed

subsection \<open>Printing the Stopwatch and reading it back\<close>

text \<open>
  Claim C10. For an elapsed time of \<open>d \<ge> 0\<close> milliseconds, the text the redraw shows in
  Stopwatch mode reads back as three fields \<open>h\<close>, \<open>m\<close>, \<open>s\<close> with
  \<open>h * 3600 + m * 60 + s = floor (d / 1000)\<close>, the hours being the full quotient by 3600
  (not wrapped at 24) and the minutes and seconds at most 59.
\<close>

theorem stopwatch_format_roundtrip:
  assumes "currentMode st = STOPWATCH" and "0 \<le> swElapsedNow c st"
  shows "\<exists>h m s. parseHMS (timeDisplayText (updateDisplay c st)) = Some (h, m, s)
           \<and> int h * 3600 + int m * 60 + int s = swElapsedNow c st div 1000
           \<and> int h = swElapsedNow c st div 1000 div 3600
           \<and> m \<le> 59 \<and> s \<le> 59"
proof -
  let ?n = "swElapsedNow c st div 1000"
  have n: "0 \<le> ?n" using assms(2) by (simp add: pos_imp_zdiv_nonneg_iff)
  have shown: "timeDisplayText (updateDisplay c st) = hmsText ?n"
    using assms(1) by (simp add: updateDisplay_def Let_def floor_div_numeral)
  have p: "parseHMS (hmsText ?n) = Some (nat (?n div 3600), nat (?n mod 3600 div 60), nat (?n mod 60))"
    using n by (rule parseHMS_hmsText)
  have total: "int (nat (?n div 3600)) * 3600 + int (nat (?n mod 3600 div 60)) * 60
      + int (nat (?n mod 60)) = ?n"
    using n by (rule hms_nat(1))
  have hours: "int (nat (?n div 3600)) = ?n div 3600"
    using n by (simp add: pos_imp_zdiv_nonneg_iff)
  have bounds: "nat (?n mod 3600 div 60) \<le> 59 \<and> nat (?n mod 60) \<le> 59"
    using hms_nat(2) [OF n] hms_nat(3) [OF n] by (rule conjI)
  from p total hours bounds show ?thesis unfolding shown by blast
qed

theorem stopwatch_format_roundtrip_witness:
  "currentMode stopwatchRunning = STOPWATCH \<and> swElapsedNow (at_ms 360062999) stopwatchRunning = 360061999
   \<and> (\<exists>h m s. parseHMS (timeDisplayText (updateDisplay (at_ms 360062999) stopwatchRunning)) = Some (h, m, s)
           \<and> int h * 3600 + int m * 60 + int s = 360061
           \<and> int h = 100
           \<and> m \<le> 59 \<and> s \<le> 59)"
proof -
  have h1: "currentMode stopwatchRunning = STOPWATCH" by code_simp
  have e: "swElapsedNow (at_ms 360062999) stopwatchRunning = 360061999" by code_simp
  have h2: "0 \<le> swElapsedNow (at_ms 360062999) stopwatchRunning" by (simp add: e)
  have d: "(360061999 :: int) div 1000 = 360061" "(360061 :: int) div 3600 = 100" by simp_all
  from stopwatch_format_roundtrip [OF h1 h2] h1 e show ?thesis by (simp add: d)
qed

end
